theory Spec2Isabelle
  imports Complex_Main "HOL-Library.Word" "HOL-Library.Signed_Division"
begin

section \<open>USB1901-record-tool: data model\<close>

text \<open>
  The program records analog samples from a USB-1901 card. This theory embeds
  \<^verbatim>\<open>USB1901-record-tool.c\<close>: the channel table, the voltage converter
  \<^verbatim>\<open>ad_range_to_volt\<close>, the sample processor \<^verbatim>\<open>process_samples\<close>, the
  argument parser \<^verbatim>\<open>process_arguments\<close>, the exit procedure \<^verbatim>\<open>clean_exit\<close>
  and the acquisition loop of \<^verbatim>\<open>main\<close>.

  Conventions of the embedding:
  \<^item> \<^verbatim>\<open>int\<close> is a 32-bit signed integer. Values are HOL integers; the sums
    \<^verbatim>\<open>i + offset\<close>, \<^verbatim>\<open>c + 1\<close>, \<^verbatim>\<open>length + offset\<close> and \<^verbatim>\<open>samples + AI_COUNT/2\<close>
    and the product \<^verbatim>\<open>1000*duration\<close> are checked against \<open>INT_MIN\<close> and
    \<open>INT_MAX\<close>, and a result outside is the error \<open>SignedOverflow\<close> (undefined
    behaviour in C). A loop counter stays below its bound, so \<^verbatim>\<open>i++\<close> needs no
    check.
    \<^verbatim>\<open>/\<close> and \<^verbatim>\<open>%\<close> truncate towards zero (\<open>sdiv\<close>, \<open>smod\<close>) and a zero
    divisor is the error \<open>DivByZero\<close>.
  \<^item> \<^verbatim>\<open>U16\<close>, \<^verbatim>\<open>I16\<close> and \<^verbatim>\<open>signed short\<close> are 16-bit words; \<open>sint\<close> reads
    the signed ones.
  \<^item> a \<^verbatim>\<open>double\<close> is modelled by the real number it denotes: rounding and
    signed zeros are not modelled. Division of doubles by zero is modelled
    (\<open>double_div\<close>), since the report line divides by \<^verbatim>\<open>length/no_channels\<close>.
  \<^item> the values of the macros of the vendor header \<^verbatim>\<open>UsbDask.h\<close> and the
    number formatting of the C library's \<^verbatim>\<open>printf\<close> are parameters.
  \<^item> a stream (\<^verbatim>\<open>stdout\<close>, \<^verbatim>\<open>stderr\<close>, the data file) is the text written
    to it so far.
\<close>

type_synonym U16 = "16 word"
type_synonym I16 = "16 word"
type_synonym short = "16 word"

text \<open>\<^verbatim>\<open>channel_t\<close>: the channel descriptor (field \<^verbatim>\<open>id\<close> is named \<open>id_ch\<close>).\<close>

record channel_t =
  id_ch :: U16
  AdRange :: U16

text \<open>
  The range codes and the module type of \<^verbatim>\<open>UsbDask.h\<close> that the program
  uses. The header belongs to the vendor's driver kit; its values are
  parameters. The range codes are the labels of one \<^verbatim>\<open>switch\<close>, so they are
  pairwise distinct (\<open>ranges_distinct\<close>).
\<close>

record UsbDask =
  AD_B_0_2_V :: U16
  AD_B_1_V :: U16
  AD_B_2_V :: U16
  AD_B_10_V :: U16
  USB_1901 :: U16

definition ranges_distinct :: "UsbDask \<Rightarrow> bool" where
  "ranges_distinct h = distinct [AD_B_0_2_V h, AD_B_1_V h, AD_B_2_V h, AD_B_10_V h]"

definition MAX_CHANNELS :: int where
  "MAX_CHANNELS = 8"

definition AI_COUNT :: int where
  "AI_COUNT = 20480"

definition INT_MAX :: int where
  "INT_MAX = 2147483647"

definition INT_MIN :: int where
  "INT_MIN = - 2147483648"

text \<open>What stops a C function where the language gives it no defined result.\<close>

datatype error =
    DivByZero
  | SignedOverflow
  | IndexOutOfBounds int
  | Uninitialised int
  | BufferOverrun int
  | NullFile
  | ScanOverflow

definition int_add :: "int \<Rightarrow> int \<Rightarrow> error + int" where
  "int_add a b =
     (if INT_MIN \<le> a + b \<and> a + b \<le> INT_MAX then Inr (a + b) else Inl SignedOverflow)"

definition int_div :: "int \<Rightarrow> int \<Rightarrow> error + int" where
  "int_div a b =
     (if b = 0 then Inl DivByZero
      else if a = INT_MIN \<and> b = - 1 then Inl SignedOverflow
      else Inr (a sdiv b))"

definition int_mod :: "int \<Rightarrow> int \<Rightarrow> error + int" where
  "int_mod a b =
     (if b = 0 then Inl DivByZero
      else if a = INT_MIN \<and> b = - 1 then Inl SignedOverflow
      else Inr (a smod b))"

text \<open>
  A \<^verbatim>\<open>double\<close>: the real it denotes, or one of the values a division by zero
  gives.
\<close>

datatype double = Finite real | PosInf | NegInf | NaN

definition double_div :: "real \<Rightarrow> real \<Rightarrow> double" where
  "double_div x y =
     (if y = 0 then (if x = 0 then NaN else if 0 < x then PosInf else NegInf)
      else Finite (x / y))"

text \<open>
  The conversions of the C library's \<^verbatim>\<open>printf\<close> that the program uses:
  \<open>fmt_e\<close> is \<^verbatim>\<open>%e\<close> (exponential notation, default precision of 6 digits after
  the decimal point), \<open>fmt_d\<close> is \<^verbatim>\<open>%d\<close>, \<open>fmt_f\<close> is \<^verbatim>\<open>%f\<close> and \<open>fmt_6_3lf\<close> is
  \<^verbatim>\<open>%6.3lf\<close>.
\<close>

record printf =
  fmt_e :: "double \<Rightarrow> string"
  fmt_d :: "int \<Rightarrow> string"
  fmt_f :: "double \<Rightarrow> string"
  fmt_6_3lf :: "double \<Rightarrow> string"

text \<open>
  The calls that the program makes to the driver, to the file and to the
  timer, in the order it makes them; \<open>calls\<close> below records them.
\<close>

datatype call =
    UD_Device_Scan
  | UD_Register_Card U16 U16
  | UD_AI_1902_Config I16
  | UD_AI_AsyncDblBufferMode I16
  | UD_AI_1902_CounterInterval I16 "32 word" "32 word"
  | UD_AI_ContReadChannel I16
  | UD_AI_ContReadMultiChannels I16 U16
  | UD_AI_AsyncDblBufferHalfReady I16
  | UD_AI_AsyncDblBufferTransfer I16
  | UD_AI_AsyncClear I16
  | UD_Release_Card U16
  | Fopen string
  | Fclose
  | Sleep nat

text \<open>
  The global state of the program, with the text written so far to the two
  standard streams and the calls made so far. \<open>file_h\<close> (the handle
  \<^verbatim>\<open>file\<close>) is \<open>None\<close> for the \<^verbatim>\<open>NULL\<close> handle and otherwise holds the text
  written to the data file. \<open>channel\<close> is the array
  \<^verbatim>\<open>channel[MAX_CHANNELS]\<close>; every index is checked against \<open>MAX_CHANNELS\<close>
  before it is used.
\<close>

record globals =
  file_name :: string
  file_h :: "string option"
  card :: I16
  sample_rate :: int
  duration :: int
  no_channels :: int
  channel :: "nat \<Rightarrow> channel_t"
  stdout :: string
  stderr :: string
  calls :: "call list"

section \<open>The voltage converter\<close>

text \<open>
  \<^verbatim>\<open>ad_range_to_volt\<close> (lines 266-281). The result is the returned voltage and
  the text written to \<^verbatim>\<open>stderr\<close>. The \<^verbatim>\<open>switch\<close> is the chain of its cases in
  the order of the source.
\<close>

definition ad_range_to_volt :: "UsbDask \<Rightarrow> U16 \<Rightarrow> real \<times> string" where
  "ad_range_to_volt h rng =
     (if rng = AD_B_0_2_V h then (0.200, [])
      else if rng = AD_B_1_V h then (1.00, [])
      else if rng = AD_B_2_V h then (2.00, [])
      else if rng = AD_B_10_V h then (10.00, [])
      else (0.00, ''ad_range_to_volt: Unknown AD range.''))"

text \<open>Range codes used where a concrete header is needed (any four distinct codes do).\<close>

definition sample_header :: UsbDask where
  "sample_header =
     \<lparr>AD_B_0_2_V = 4, AD_B_1_V = 3, AD_B_2_V = 2, AD_B_10_V = 1, USB_1901 = 5\<rparr>"

section \<open>The sample processor\<close>

text \<open>
  The local arrays \<^verbatim>\<open>toVolts[MAX_CHANNELS]\<close> and \<^verbatim>\<open>sum[MAX_CHANNELS]\<close> (named
  \<open>sum_ch\<close> here) start uninitialised: an array is a map from the indices
  written so far to their values. \<open>load\<close> reads an element: an index outside
  the array and an element never written are errors.
\<close>

type_synonym darray = "nat \<rightharpoonup> real"

definition load :: "darray \<Rightarrow> int \<Rightarrow> error + real" where
  "load a c =
     (if c < 0 \<or> MAX_CHANNELS \<le> c then Inl (IndexOutOfBounds c)
      else case a (nat c) of None \<Rightarrow> Inl (Uninitialised c) | Some v \<Rightarrow> Inr v)"

text \<open>
  Lines 242-245: the first loop clears the sums and computes the scale factor of
  every channel. The state is the two arrays and the text of \<^verbatim>\<open>stderr\<close>.
\<close>

function init_loop ::
  "UsbDask \<Rightarrow> globals \<Rightarrow> int \<Rightarrow> darray \<times> darray \<times> string \<Rightarrow> error + (darray \<times> darray \<times> string)"
where
  "init_loop h g i (sum_ch, toVolts, err) =
     (if i < no_channels g then
        (if i < 0 \<or> MAX_CHANNELS \<le> i then Inl (IndexOutOfBounds i)
         else
           (case ad_range_to_volt h (AdRange (channel g (nat i))) of (v, msg) \<Rightarrow>
              init_loop h g (i + 1)
                (sum_ch(nat i \<mapsto> 0), toVolts(nat i \<mapsto> v / 2 ^ 15), err @ msg)))
      else Inr (sum_ch, toVolts, err))"
  by pat_completeness auto
termination
  by (relation "measure (\<lambda>(h, g, i, st). nat (no_channels g - i))") auto

declare init_loop.simps [simp del]

text \<open>Line 247: the channel of sample \<open>i\<close>, \<^verbatim>\<open>(i + offset) % no_channels\<close>.\<close>

definition channel_index :: "int \<Rightarrow> int \<Rightarrow> int \<Rightarrow> error + int" where
  "channel_index nc offset i =
     (case int_add i offset of Inl e \<Rightarrow> Inl e | Inr io \<Rightarrow> int_mod io nc)"

text \<open>Line 248: the voltage of sample \<open>i\<close> on channel \<open>c\<close>, \<^verbatim>\<open>(double)buffer[i] * toVolts[c]\<close>.\<close>

definition sample_volts :: "darray \<Rightarrow> short list \<Rightarrow> int \<Rightarrow> int \<Rightarrow> error + real" where
  "sample_volts toVolts buffer i c =
     (if i < 0 \<or> int (length buffer) \<le> i then Inl (BufferOverrun i)
      else case load toVolts c of Inl e \<Rightarrow> Inl e
        | Inr tv \<Rightarrow> Inr (real_of_int (sint (buffer ! nat i)) * tv))"

text \<open>
  Lines 253-257: the separator written after a field, a comma and a tab unless
  \<^verbatim>\<open>(c + 1) % no_channels\<close> is zero, then a newline.
\<close>

definition separator :: "int \<Rightarrow> int \<Rightarrow> error + string" where
  "separator nc c =
     (case int_add c 1 of Inl e \<Rightarrow> Inl e
      | Inr c1 \<Rightarrow>
          (case int_mod c1 nc of Inl e \<Rightarrow> Inl e
           | Inr r \<Rightarrow> Inr (if r \<noteq> 0 then [CHR '','', CHR 0x09] else [CHR 0x0A])))"

text \<open>
  Lines 247-257: the body of the second loop. The state is the array of sums
  and the data file; \<^verbatim>\<open>fprintf\<close> on the \<^verbatim>\<open>NULL\<close> handle is an error.
\<close>

definition sample_step ::
  "printf \<Rightarrow> int \<Rightarrow> darray \<Rightarrow> short list \<Rightarrow> int \<Rightarrow> int \<Rightarrow> darray \<times> string option
     \<Rightarrow> error + (darray \<times> string option)"
where
  "sample_step pf nc toVolts buffer offset i st =
     (case st of (sum_ch, f) \<Rightarrow>
      case channel_index nc offset i of Inl e \<Rightarrow> Inl e | Inr c \<Rightarrow>
      case sample_volts toVolts buffer i c of Inl e \<Rightarrow> Inl e | Inr volts \<Rightarrow>
      case load sum_ch c of Inl e \<Rightarrow> Inl e | Inr sm \<Rightarrow>
      case separator nc c of Inl e \<Rightarrow> Inl e | Inr sep \<Rightarrow>
      case f of None \<Rightarrow> Inl NullFile
      | Some wr \<Rightarrow>
          Inr (sum_ch(nat c \<mapsto> sm + volts), Some (wr @ fmt_e pf (Finite volts) @ sep)))"

text \<open>Lines 246-258: the second loop, over the samples \<open>i\<close>, ..., \<open>len - 1\<close>.\<close>

function sample_loop ::
  "printf \<Rightarrow> int \<Rightarrow> darray \<Rightarrow> short list \<Rightarrow> int \<Rightarrow> int \<Rightarrow> int \<Rightarrow> darray \<times> string option
     \<Rightarrow> error + (darray \<times> string option)"
where
  "sample_loop pf nc toVolts buffer len offset i st =
     (if i < len then
        (case sample_step pf nc toVolts buffer offset i st of Inl e \<Rightarrow> Inl e
         | Inr st' \<Rightarrow> sample_loop pf nc toVolts buffer len offset (i + 1) st')
      else Inr st)"
  by pat_completeness auto
termination
  by (relation "measure (\<lambda>(pf, nc, toVolts, buffer, len, offset, i, st). nat (len - i))") auto

declare sample_loop.simps [simp del]

text \<open>
  Line 261: one report line, \<^verbatim>\<open>"  Channel %d average %e V.\n"\<close>, with the
  channel's id and its sum divided by \<^verbatim>\<open>samplesPerChannel\<close>.
\<close>

definition report_line :: "printf \<Rightarrow> U16 \<Rightarrow> double \<Rightarrow> string" where
  "report_line pf ident avg =
     ''  Channel '' @ fmt_d pf (uint ident) @ '' average '' @ fmt_e pf avg @ '' V.'' @ [CHR 0x0A]"

text \<open>Lines 259-262: the third loop; the state is the text of \<^verbatim>\<open>stdout\<close>.\<close>

function report_loop ::
  "printf \<Rightarrow> globals \<Rightarrow> darray \<Rightarrow> real \<Rightarrow> int \<Rightarrow> string \<Rightarrow> error + string"
where
  "report_loop pf g sum_ch samplesPerChannel i out =
     (if i < no_channels g then
        (if i < 0 \<or> MAX_CHANNELS \<le> i then Inl (IndexOutOfBounds i)
         else
           (case load sum_ch i of Inl e \<Rightarrow> Inl e
            | Inr sm \<Rightarrow>
                report_loop pf g sum_ch samplesPerChannel (i + 1)
                  (out @ report_line pf (id_ch (channel g (nat i)))
                           (double_div sm samplesPerChannel))))
      else Inr out)"
  by pat_completeness auto
termination
  by (relation "measure (\<lambda>(pf, g, sum_ch, spc, i, out). nat (no_channels g - i))") auto

declare report_loop.simps [simp del]

text \<open>
  \<^verbatim>\<open>process_samples\<close> (lines 235-264). \<^verbatim>\<open>length/no_channels\<close> on line 239
  comes first, so a channel count of zero stops the call there. The result is
  the returned offset and the globals with the three streams updated.
\<close>

definition process_samples ::
  "UsbDask \<Rightarrow> printf \<Rightarrow> globals \<Rightarrow> short list \<Rightarrow> int \<Rightarrow> int \<Rightarrow> error + (int \<times> globals)"
where
  "process_samples h pf g buffer len offset =
     (case int_div len (no_channels g) of Inl e \<Rightarrow> Inl e | Inr q \<Rightarrow>
      case init_loop h g 0 (Map.empty, Map.empty, stderr g) of Inl e \<Rightarrow> Inl e
      | Inr (sum0, toVolts, err) \<Rightarrow>
      case sample_loop pf (no_channels g) toVolts buffer len offset 0 (sum0, file_h g) of
        Inl e \<Rightarrow> Inl e
      | Inr (sum_ch, f) \<Rightarrow>
      case report_loop pf g sum_ch (real_of_int q) 0 (stdout g) of Inl e \<Rightarrow> Inl e
      | Inr out \<Rightarrow>
      case int_add len offset of Inl e \<Rightarrow> Inl e | Inr lo \<Rightarrow>
      case int_mod lo (no_channels g) of Inl e \<Rightarrow> Inl e
      | Inr off \<Rightarrow> Inr (off, g\<lparr>file_h := f, stdout := out, stderr := err\<rparr>))"

section \<open>The argument parser\<close>

text \<open>
  \<^verbatim>\<open>sscanf\<close> belongs to the C library. Its \<^verbatim>\<open>%d\<close> directive is modelled after
  the C standard: it skips white space, takes an optional sign and then the
  longest run of decimal digits, at least one; what follows the digits stays
  unread. \<open>scan_d\<close> gives \<open>None\<close> when nothing matches, and the value with the
  unread rest otherwise. A value outside the range of \<^verbatim>\<open>int\<close> is undefined
  behaviour in C: the error \<open>ScanOverflow\<close>.
\<close>

definition is_space :: "char \<Rightarrow> bool" where
  "is_space c = (c \<in> {CHR '' '', CHR 0x09, CHR 0x0A, CHR 0x0B, CHR 0x0C, CHR 0x0D})"

definition is_digit :: "char \<Rightarrow> bool" where
  "is_digit c = (c \<in> set ''0123456789'')"

definition digit_value :: "char \<Rightarrow> int" where
  "digit_value c = int (of_char c) - 48"

fun scan_digits :: "string \<Rightarrow> int \<Rightarrow> int \<times> string" where
  "scan_digits [] acc = (acc, [])"
| "scan_digits (c # cs) acc =
     (if is_digit c then scan_digits cs (10 * acc + digit_value c) else (acc, c # cs))"

definition scan_d :: "string \<Rightarrow> error + (int \<times> string) option" where
  "scan_d s =
     (let s1 = dropWhile is_space s;
          neg = (s1 \<noteq> [] \<and> hd s1 = CHR ''-'');
          s2 = (if s1 \<noteq> [] \<and> (hd s1 = CHR ''-'' \<or> hd s1 = CHR ''+'') then tl s1 else s1)
      in if s2 = [] \<or> \<not> is_digit (hd s2) then Inr None
         else (case scan_digits s2 0 of
                 (v, rest) \<Rightarrow>
                   let n = (if neg then - v else v)
                   in if n < INT_MIN \<or> INT_MAX < n then Inl ScanOverflow
                      else Inr (Some (n, rest))))"

text \<open>
  \<^verbatim>\<open>sscanf(s, "%d", &x)\<close> and \<^verbatim>\<open>sscanf(s, "%d:%d", &x, &y)\<close>. The result is
  \<open>Some\<close> of the values when every directive was converted (the call returns 1,
  respectively 2) and \<open>None\<close> when the call returns less.
\<close>

definition sscanf_d :: "string \<Rightarrow> error + int option" where
  "sscanf_d s =
     (case scan_d s of Inl e \<Rightarrow> Inl e
      | Inr None \<Rightarrow> Inr None
      | Inr (Some (x, rest)) \<Rightarrow> Inr (Some x))"

definition sscanf_d_d :: "string \<Rightarrow> error + (int \<times> int) option" where
  "sscanf_d_d s =
     (case scan_d s of Inl e \<Rightarrow> Inl e
      | Inr None \<Rightarrow> Inr None
      | Inr (Some (x, rest)) \<Rightarrow>
          (case rest of [] \<Rightarrow> Inr None
           | c # rest' \<Rightarrow>
               if c \<noteq> CHR '':'' then Inr None
               else (case scan_d rest' of Inl e \<Rightarrow> Inl e
                     | Inr None \<Rightarrow> Inr None
                     | Inr (Some (y, rest'')) \<Rightarrow> Inr (Some (x, y)))))"

text \<open>
  How the process ends when it does not run on: \<^verbatim>\<open>exit(code)\<close> with the state
  it leaves, or undefined behaviour.
\<close>

datatype outcome = Exited int globals | Crashed error

text \<open>
  \<^verbatim>\<open>argv[i]\<close> as \<^verbatim>\<open>%s\<close> prints it. \<^verbatim>\<open>argv[argc]\<close> is the null pointer, which the
  common C libraries print as \<^verbatim>\<open>(null)\<close>.
\<close>

definition arg_text :: "string list \<Rightarrow> nat \<Rightarrow> string" where
  "arg_text argv i = (if i < length argv then argv ! i else ''(null)'')"

text \<open>\<^verbatim>\<open>fprintf(stderr, msg); exit(code)\<close>.\<close>

definition die :: "globals \<Rightarrow> string \<Rightarrow> int \<Rightarrow> outcome" where
  "die g msg code = Exited code (g\<lparr>stderr := stderr g @ msg\<rparr>)"

text \<open>\<^verbatim>\<open>print_usage\<close> (lines 152-164).\<close>

definition print_usage :: "string list \<Rightarrow> globals \<Rightarrow> globals" where
  "print_usage argv g =
     g\<lparr>stdout := stdout g @ ''Usage: '' @ arg_text argv 0 @ '' [OPTIONS]'' @ [CHR 0x0A, CHR 0x0A]
        @ ''  -h                       Print this message and exit.'' @ [CHR 0x0A]
        @ ''  -o <file name>           Save the result in the named file.'' @ [CHR 0x0A]
        @ ''                           The default is '' @ [CHR 0x27] @ ''data.csv'' @ [CHR 0x27] @ ''.'' @ [CHR 0x0A]
        @ ''  -s <sample rate in Hz>   Set the sample rate in Hz. The default is 200 Hz.'' @ [CHR 0x0A]
        @ ''  -c <channel id>:<range>  Add <channel id> to the set of sampled channels with'' @ [CHR 0x0A]
        @ ''                           the selected range. Ranges: 0 - +/-200mV;'' @ [CHR 0x0A]
        @ ''                           1 - +/-1.00V; 2 - +/-2.00V; 3 - +/-10.0V.'' @ [CHR 0x0A]
        @ ''  -d <duration>            Sample for <duration> seconds.'' @ [CHR 0x0A]
        @ ''                           The default is until a key is pressed. '' @ [CHR 0x0A]\<rparr>"

text \<open>
  Lines 200-213: the \<^verbatim>\<open>switch\<close> that stores the range code. It has no
  \<^verbatim>\<open>default\<close>: another value leaves \<^verbatim>\<open>AdRange\<close> as it was.
\<close>

definition set_range :: "UsbDask \<Rightarrow> int \<Rightarrow> U16 \<Rightarrow> U16" where
  "set_range h r old =
     (if r = 0 then AD_B_0_2_V h
      else if r = 1 then AD_B_1_V h
      else if r = 2 then AD_B_2_V h
      else if r = 3 then AD_B_10_V h
      else old)"

text \<open>The messages of the parser, each with the program name \<^verbatim>\<open>argv[0]\<close> in front.\<close>

definition no_file_name :: "string list \<Rightarrow> string" where
  "no_file_name argv = arg_text argv 0 @ '': No file name given to '' @ [CHR 0x27] @ ''-o'' @ [CHR 0x27] @ ''.'' @ [CHR 0x0A]"

definition bad_frequency :: "string list \<Rightarrow> string" where
  "bad_frequency argv = arg_text argv 0 @ '': Bad sample frequency given to '' @ [CHR 0x27] @ ''-s'' @ [CHR 0x27] @ ''.'' @ [CHR 0x0A]"

definition bad_parameter :: "string list \<Rightarrow> nat \<Rightarrow> string" where
  "bad_parameter argv i = arg_text argv 0 @ '': Bad parameter '' @ [CHR 0x27] @ arg_text argv i @ [CHR 0x27] @ '' given to '' @ [CHR 0x27] @ ''-c'' @ [CHR 0x27] @ ''.'' @ [CHR 0x0A]"

definition too_many_channels :: "string list \<Rightarrow> string" where
  "too_many_channels argv = arg_text argv 0 @ '': Too many channels.'' @ [CHR 0x0A]"

definition bad_duration :: "string list \<Rightarrow> string" where
  "bad_duration argv = arg_text argv 0 @ '': Bad duration given to '' @ [CHR 0x27] @ ''-d'' @ [CHR 0x27] @ ''.'' @ [CHR 0x0A]"

definition unknown_argument :: "string list \<Rightarrow> nat \<Rightarrow> string" where
  "unknown_argument argv i = arg_text argv 0 @ '': Unknown commandline argument '' @ [CHR 0x27] @ arg_text argv i @ [CHR 0x27] @ ''.'' @ [CHR 0x0A]"

text \<open>
  Lines 171-232: the loop of \<^verbatim>\<open>process_arguments\<close>, from argument \<open>i\<close> on.
  \<^verbatim>\<open>argc\<close> is \<open>length argv\<close>. A branch that takes a value skips two arguments,
  the \<^verbatim>\<open>i++\<close> of the branch and the one at the end of the loop body.
\<close>

function arg_loop :: "UsbDask \<Rightarrow> string list \<Rightarrow> nat \<Rightarrow> globals \<Rightarrow> outcome + globals" where
  "arg_loop h argv i g =
     (if i < length argv then
        (if argv ! i = ''-h'' then Inl (Exited 0 (print_usage argv g))
         else if argv ! i = ''-o'' then
           (if length argv \<le> i + 1 then Inl (die g (no_file_name argv) (- 1))
            else arg_loop h argv (i + 2) (g\<lparr>file_name := argv ! (i + 1)\<rparr>))
         else if argv ! i = ''-s'' then
           (if length argv \<le> i + 1 then Inl (die g (bad_frequency argv) (- 1))
            else
              (case sscanf_d (argv ! (i + 1)) of Inl e \<Rightarrow> Inl (Crashed e)
               | Inr None \<Rightarrow> Inl (die g (bad_frequency argv) (- 1))
               | Inr (Some s) \<Rightarrow>
                   if s < 1 then Inl (die g (bad_frequency argv) (- 1))
                   else arg_loop h argv (i + 2) (g\<lparr>sample_rate := s\<rparr>)))
         else if argv ! i = ''-c'' then
           (if no_channels g < MAX_CHANNELS then
              (if length argv \<le> i + 1 then Inl (die g (bad_parameter argv (i + 1)) (- 1))
               else
                 (case sscanf_d_d (argv ! (i + 1)) of Inl e \<Rightarrow> Inl (Crashed e)
                  | Inr None \<Rightarrow> Inl (die g (bad_parameter argv (i + 1)) (- 1))
                  | Inr (Some (ident, rng)) \<Rightarrow>
                      if ident < 0 \<or> ident > 15 \<or> rng < 0 \<or> rng > 3
                      then Inl (die g (bad_parameter argv (i + 1)) (- 1))
                      else if no_channels g < 0
                      then Inl (Crashed (IndexOutOfBounds (no_channels g)))
                      else
                        arg_loop h argv (i + 2)
                          (g\<lparr>channel := (channel g)
                                (nat (no_channels g) :=
                                   \<lparr>id_ch = word_of_int ident,
                                    AdRange = set_range h rng
                                      (AdRange (channel g (nat (no_channels g))))\<rparr>),
                              no_channels := no_channels g + 1\<rparr>)))
            else Inl (die g (too_many_channels argv) (- 1)))
         else if argv ! i = ''-d'' then
           (if length argv \<le> i + 1 then Inl (die g (bad_duration argv) (- 1))
            else
              (case sscanf_d (argv ! (i + 1)) of Inl e \<Rightarrow> Inl (Crashed e)
               | Inr None \<Rightarrow> Inl (die g (bad_duration argv) (- 1))
               | Inr (Some d) \<Rightarrow>
                   if d < 1 then Inl (die g (bad_duration argv) (- 1))
                   else arg_loop h argv (i + 2) (g\<lparr>duration := d\<rparr>)))
         else Inl (die g (unknown_argument argv i) (- 1)))
      else Inr g)"
  by pat_completeness auto
termination
  by (relation "measure (\<lambda>(h, argv, i, g). length argv - i)") auto

declare arg_loop.simps [simp del]

text \<open>\<^verbatim>\<open>process_arguments\<close> (lines 166-233).\<close>

definition process_arguments :: "UsbDask \<Rightarrow> string list \<Rightarrow> globals \<Rightarrow> outcome + globals" where
  "process_arguments h argv g = arg_loop h argv 1 (g\<lparr>no_channels := 0\<rparr>)"

section \<open>The exit procedure\<close>

text \<open>
  \<^verbatim>\<open>clean_exit\<close> (lines 392-397): release the card, close the file if the
  handle is not \<^verbatim>\<open>NULL\<close>, and exit with the code.
\<close>

definition clean_exit :: "U16 \<Rightarrow> int \<Rightarrow> globals \<Rightarrow> outcome" where
  "clean_exit crd code g =
     Exited code
       (g\<lparr>calls := calls g @ [UD_Release_Card crd] @
                 (if file_h g \<noteq> None then [Fclose] else [])\<rparr>)"

section \<open>Opening the device\<close>

text \<open>
  What the driver, the file system and the user answer during one run of the
  program: the results of the driver calls of \<^verbatim>\<open>open_USB1901\<close>, of
  \<^verbatim>\<open>GetTickCount\<close> and \<^verbatim>\<open>fopen\<close> (\<open>fopen_error\<close> is the text of \<^verbatim>\<open>strerror\<close>
  when it fails), one \<open>poll\<close> for every turn of the acquisition loop, and the
  results of the calls that follow the loop.
\<close>

record poll =
  half_err :: I16
  HalfReady :: bool
  xfer_err :: I16
  xfer_data :: "short list"
  kbhit :: bool
  tick :: "32 word"

record driver =
  scan_err :: I16
  modules :: "(U16 \<times> U16) list"
  register_card :: I16
  config_err :: I16
  dbl_buffer_mode_err :: I16
  counter_interval_err :: I16
  cont_read_err :: I16
  last_error :: "32 word"
  tick_start :: "32 word"
  fopen_error :: "string option"
  polls :: "poll list"
  clear_err :: I16
  clear_count :: "32 word"
  tick_end :: "32 word"
  last_xfer_err :: I16
  last_xfer_data :: "short list"

definition U1902_TIMEBASE :: int where
  "U1902_TIMEBASE = 80000000"

definition INVALID_CARD_ID :: U16 where
  "INVALID_CARD_ID = 0xFFFF"

text \<open>\<^verbatim>\<open>fprintf(stderr, "<what> Error: %d\n", err)\<close>.\<close>

definition error_text :: "printf \<Rightarrow> string \<Rightarrow> I16 \<Rightarrow> string" where
  "error_text pf what err = what @ '' Error: '' @ fmt_d pf (sint err) @ [CHR 0x0A]"

text \<open>
  Lines 326-332: the card id of the first module of type \<^verbatim>\<open>USB_1901\<close>, or
  \<open>INVALID_CARD_ID\<close>. A module is its type and its card id.
\<close>

definition pick_card :: "UsbDask \<Rightarrow> (U16 \<times> U16) list \<Rightarrow> U16" where
  "pick_card h ms =
     (case find (\<lambda>m. fst m = USB_1901 h) ms of None \<Rightarrow> INVALID_CARD_ID | Some m \<Rightarrow> snd m)"

text \<open>
  \<^verbatim>\<open>open_USB1901\<close> (lines 283-390). The result is the card handle and the
  globals, or the way the process ends. The loop of lines 309-312 copies the
  channel table into two arrays of \<open>MAX_CHANNELS\<close> elements for the driver;
  only its bound is modelled.
\<close>

definition open_USB1901 :: "UsbDask \<Rightarrow> printf \<Rightarrow> driver \<Rightarrow> globals \<Rightarrow> outcome + (I16 \<times> globals)" where
  "open_USB1901 h pf d g =
     (case int_div U1902_TIMEBASE (sample_rate g) of Inl e \<Rightarrow> Inl (Crashed e)
      | Inr q \<Rightarrow>
     let ScanIntrv = (word_of_int q :: 32 word);
         NumChans = (word_of_int (no_channels g) :: U16);
         SampIntrv = (if NumChans = 1 then 320 else 128 * 320 :: 32 word)
     in
     if MAX_CHANNELS < uint NumChans then Inl (Crashed (IndexOutOfBounds MAX_CHANNELS))
     else
     let g1 = g\<lparr>stdout := stdout g @ ''Configuring USB-1901 to perform analog data acquisition from '' @ fmt_d pf (no_channels g) @ '' channels'' @ [CHR 0x0A]
                  @ ''at '' @ fmt_6_3lf pf (double_div (real_of_int U1902_TIMEBASE) (real_of_int (uint ScanIntrv))) @ '' Hz scan rate in double buffer mode.'' @ [CHR 0x0A, CHR 0x0A],
                calls := calls g @ [UD_Device_Scan]\<rparr>
     in
     if sint (scan_err d) < 0
     then Inl (die g1 (error_text pf ''UD_Device_Scan'' (scan_err d)) 1)
     else if pick_card h (modules d) = INVALID_CARD_ID
     then Inl (die g1 (''No active USB_1901 USB device'' @ [CHR 0x0A]) 2)
     else
     let crd = register_card d;
         g2 = g1\<lparr>calls := calls g1 @ [UD_Register_Card (USB_1901 h) (pick_card h (modules d))]\<rparr>
     in
     if sint crd < 0
     then Inl (die g2 (error_text pf ''UD_Register_Card'' crd) 3)
     else
     let g3 = g2\<lparr>calls := calls g2 @ [UD_AI_1902_Config crd]\<rparr> in
     if sint (config_err d) < 0
     then Inl (die g3 (error_text pf ''UD_AI_1902_Config'' (config_err d)) 1)
     else
     let g4 = g3\<lparr>calls := calls g3 @ [UD_AI_AsyncDblBufferMode crd]\<rparr> in
     if sint (dbl_buffer_mode_err d) < 0
     then Inl (die g4 (error_text pf ''UD_AI_AsyncDblBufferMode'' (dbl_buffer_mode_err d)) 1)
     else
     let g5 = g4\<lparr>calls := calls g4 @ [UD_AI_1902_CounterInterval crd ScanIntrv SampIntrv]\<rparr> in
     if sint (counter_interval_err d) < 0
     then Inl (die g5 (error_text pf ''UD_AI_1902_CounterInterval'' (counter_interval_err d)) 1)
     else
     let start = (if NumChans = 1 then UD_AI_ContReadChannel crd
                  else UD_AI_ContReadMultiChannels crd NumChans);
         name = (if NumChans = 1 then ''UD_AI_ContReadChannel''
                 else ''UD_AI_ContReadMultiChannels'');
         g6 = g5\<lparr>calls := calls g5 @ [start]\<rparr>
     in
     if sint (cont_read_err d) < 0
     then Inl (clean_exit crd 1
            (g6\<lparr>stderr := stderr g6 @ name @ '' Error: '' @ fmt_d pf (sint (cont_read_err d))
                          @ '', GetLastError = '' @ fmt_d pf (sint (last_error d))
                          @ [CHR 0x0A]\<rparr>))
     else Inr (crd, g6))"

section \<open>The acquisition loop\<close>

text \<open>
  The local variables of \<^verbatim>\<open>main\<close> that live across the loop. \<open>buffer\<close> holds
  what the last transfer left in \<^verbatim>\<open>buffer[AI_COUNT]\<close>; before the first
  transfer nothing of it is initialised and it is empty.
\<close>

record frame =
  AccessCnt :: "32 word"
  offset_v :: int
  samples :: int
  buffer_v :: "short list"

datatype step = Continue globals frame | Break globals frame | Stop outcome

definition press_any_key_to_stop :: string where
  "press_any_key_to_stop = ''                            Press any key to stop...'' @ [CHR 0x0A]"

text \<open>
  Lines 90-104: a half buffer is ready. The driver copies it into \<^verbatim>\<open>buffer\<close>
  and the \<open>AI_COUNT/2\<close> samples go through \<^verbatim>\<open>process_samples\<close>.
\<close>

definition half_ready :: "UsbDask \<Rightarrow> printf \<Rightarrow> poll \<Rightarrow> globals \<Rightarrow> frame \<Rightarrow> outcome + (globals \<times> frame)" where
  "half_ready h pf p g fr =
     (let g1 = g\<lparr>stdout := stdout g @ [CHR 0x0A] @ ''Buffer Half Ready...'' @ [CHR 0x0A]
                     @ ''Writing '' @ fmt_d pf (AI_COUNT sdiv 2) @ '' samples to the file '' @ [CHR 0x27] @ file_name g @ [CHR 0x27] @ ''...'' @ [CHR 0x0A]
                     @ (if duration g < 1 then press_any_key_to_stop else []),
                calls := calls g @ [UD_AI_AsyncDblBufferTransfer (card g)]\<rparr>
      in
      if sint (xfer_err p) < 0
      then Inl (clean_exit (card g) 1
             (g1\<lparr>stderr := stderr g1 @ error_text pf ''AI_AsyncDblBufferTransfer'' (xfer_err p),
                  calls := calls g1 @ [UD_AI_AsyncClear (card g)]\<rparr>))
      else
        (case int_add (samples fr) (AI_COUNT sdiv 2) of Inl e \<Rightarrow> Inl (Crashed e)
         | Inr n \<Rightarrow>
             (case process_samples h pf g1 (take (nat AI_COUNT) (xfer_data p)) (AI_COUNT sdiv 2)
                     (offset_v fr) of
                Inl e \<Rightarrow> Inl (Crashed e)
              | Inr (off, g2) \<Rightarrow>
                  Inr (g2, fr\<lparr>offset_v := off, samples := n,
                              buffer_v := take (nat AI_COUNT) (xfer_data p)\<rparr>))))"

text \<open>
  Lines 106-117: the exit check. Without a duration a pressed key ends the
  loop; with one, the loop ends when the unsigned difference of the tick
  counts exceeds \<^verbatim>\<open>1000*duration\<close>.
\<close>

definition exit_check :: "32 word \<Rightarrow> poll \<Rightarrow> globals \<Rightarrow> error + bool" where
  "exit_check t1 p g =
     (if duration g < 1 then Inr (kbhit p)
      else if INT_MAX < 1000 * duration g then Inl SignedOverflow
      else Inr (word_of_int (1000 * duration g) < tick p - t1))"

text \<open>Lines 79-117: one turn of the loop.\<close>

definition poll_step :: "UsbDask \<Rightarrow> printf \<Rightarrow> 32 word \<Rightarrow> poll \<Rightarrow> globals \<Rightarrow> frame \<Rightarrow> step" where
  "poll_step h pf t1 p g fr =
     (let g1 = g\<lparr>calls := calls g @ [Sleep 10, UD_AI_AsyncDblBufferHalfReady (card g)]\<rparr> in
      if sint (half_err p) < 0
      then Stop (clean_exit (card g) 1
             (g1\<lparr>stderr := stderr g1 @ error_text pf ''AI_AsyncDblBufferHalfReady'' (half_err p),
                  calls := calls g1 @ [UD_AI_AsyncClear (card g)]\<rparr>))
      else
        (case (if HalfReady p then half_ready h pf p g1 fr else Inr (g1, fr)) of
           Inl out \<Rightarrow> Stop out
         | Inr (g2, fr2) \<Rightarrow>
             (case exit_check t1 p g2 of Inl e \<Rightarrow> Stop (Crashed e)
              | Inr True \<Rightarrow> Break g2 fr2
              | Inr False \<Rightarrow> Continue g2 fr2)))"

text \<open>
  Lines 78-118: the loop \<^verbatim>\<open>for (;;)\<close>, one turn for every poll of the run. It
  ends with the process (\<open>Inl\<close>) or with a \<^verbatim>\<open>break\<close> (\<open>Inr\<close>); when the polls
  run out before that, the loop is still running and the result is \<open>None\<close>.
\<close>

fun acquire ::
  "UsbDask \<Rightarrow> printf \<Rightarrow> 32 word \<Rightarrow> poll list \<Rightarrow> globals \<Rightarrow> frame
     \<Rightarrow> (outcome + (globals \<times> frame)) option"
where
  "acquire h pf t1 [] g fr = None"
| "acquire h pf t1 (p # ps) g fr =
     (case poll_step h pf t1 p g fr of
        Stop out \<Rightarrow> Some (Inl out)
      | Break g' fr' \<Rightarrow> Some (Inr (g', fr'))
      | Continue g' fr' \<Rightarrow> acquire h pf t1 ps g' fr')"

text \<open>
  Lines 120-149: after the loop. \<^verbatim>\<open>UD_AI_AsyncClear\<close> stores the number of
  remaining samples in \<^verbatim>\<open>AccessCnt\<close>; they are transferred and processed, the
  card is released and \<^verbatim>\<open>clean_exit(card, 0)\<close> ends the process.
\<close>

definition drain :: "UsbDask \<Rightarrow> printf \<Rightarrow> driver \<Rightarrow> globals \<Rightarrow> frame \<Rightarrow> outcome" where
  "drain h pf d g fr =
     (let g1 = g\<lparr>calls := calls g @ [UD_AI_AsyncClear (card g)]\<rparr> in
      if sint (clear_err d) < 0
      then clean_exit (card g) 1
             (g1\<lparr>stderr := stderr g1 @ error_text pf ''AI_AsyncClear'' (clear_err d)\<rparr>)
      else
      let g2 = g1\<lparr>calls := calls g1 @ [UD_AI_AsyncDblBufferTransfer (card g)]\<rparr> in
      if sint (last_xfer_err d) < 0
      then clean_exit (card g) 1
             (g2\<lparr>stderr := stderr g2
                     @ error_text pf ''AI_AsyncDblBufferTransfer'' (last_xfer_err d)\<rparr>)
      else
      let g3 = g2\<lparr>stdout := stdout g2 @ [CHR 0x0A] @ ''Writing the last '' @ fmt_d pf (sint (clear_count d)) @ '' samples out of ''
                     @ fmt_d pf (sint (word_of_int (samples fr) + clear_count d)) @ '' to '' @ [CHR 0x27] @ file_name g @ [CHR 0x27] @ ''. Total duration ''
                     @ fmt_f pf (Finite (real_of_int (uint (tick_end d - tick_start d)) / 1000.0)) @ '' sec.'' @ [CHR 0x0A]\<rparr> in
      (case process_samples h pf g3 (take (nat AI_COUNT) (last_xfer_data d))
              (sint (clear_count d)) (offset_v fr) of
         Inl e \<Rightarrow> Crashed e
       | Inr (off, g4) \<Rightarrow>
           clean_exit (card g) 0
             (g4\<lparr>stdout := stdout g4 @ (if duration g < 1 then ''                            Press any key to exit...'' @ [CHR 0x0A] else []),
                  calls := calls g4 @ [UD_Release_Card (card g)]\<rparr>)))"

text \<open>The globals as the program starts (lines 42-49), with nothing written.\<close>

definition initial_globals :: globals where
  "initial_globals =
     \<lparr>file_name = ''data.csv'', file_h = None, card = 0xFFFF, sample_rate = 200,
      duration = - 1, no_channels = 0, channel = (\<lambda>k. \<lparr>id_ch = 0, AdRange = 0\<rparr>),
      stdout = [], stderr = [], calls = []\<rparr>"

text \<open>The local variables of \<^verbatim>\<open>main\<close> as the loop starts (lines 56-59).\<close>

definition initial_frame :: frame where
  "initial_frame = \<lparr>AccessCnt = 0, offset_v = 0, samples = 0, buffer_v = []\<rparr>"

text \<open>
  Lines 69-72: \<^verbatim>\<open>fopen(file_name, "w")\<close>; a failure is reported with
  \<^verbatim>\<open>perror\<close> and the handle stays \<^verbatim>\<open>NULL\<close>.
\<close>

definition open_file :: "driver \<Rightarrow> globals \<Rightarrow> globals" where
  "open_file d g =
     (let g1 = g\<lparr>calls := calls g @ [Fopen (file_name g)]\<rparr> in
      case fopen_error d of
        None \<Rightarrow> g1\<lparr>file_h := Some []\<rparr>
      | Some reason \<Rightarrow>
          g1\<lparr>file_h := None,
             stderr := stderr g1 @ ''fopen error: '' @ '': '' @ reason @ [CHR 0x0A]\<rparr>)"

text \<open>
  \<^verbatim>\<open>main\<close> (lines 51-150). The result is the way the process ends, or \<open>None\<close>
  when the acquisition loop is still running after the last poll of the run.
\<close>

definition main :: "UsbDask \<Rightarrow> printf \<Rightarrow> driver \<Rightarrow> string list \<Rightarrow> outcome option" where
  "main h pf d argv =
     (case process_arguments h argv initial_globals of Inl out \<Rightarrow> Some out
      | Inr g1 \<Rightarrow>
     case open_USB1901 h pf d g1 of Inl out \<Rightarrow> Some out
      | Inr (crd, g2) \<Rightarrow>
     let g3 = open_file d (g2\<lparr>card := crd\<rparr>);
         g4 = g3\<lparr>stdout := stdout g3 @ (if duration g3 < 1 then press_any_key_to_stop else [])\<rparr>
     in
     case acquire h pf (tick_start d) (polls d) g4 initial_frame of
       None \<Rightarrow> None
     | Some (Inl out) \<Rightarrow> Some out
     | Some (Inr (g5, fr)) \<Rightarrow> Some (drain h pf d g5 (fr\<lparr>AccessCnt := clear_count d\<rparr>)))"

section \<open>What the parser refuses\<close>





section \<open>Closed forms of the sample processor\<close>

text \<open>
  The values that the loops of \<^verbatim>\<open>process_samples\<close> compute, written without
  the loops; the lemmas below prove that the loops compute them.
  \<open>scale_factor\<close> is the value stored in \<^verbatim>\<open>toVolts[k]\<close> (line 244),
  \<open>range_messages\<close> the text that \<^verbatim>\<open>ad_range_to_volt\<close> writes to \<^verbatim>\<open>stderr\<close>
  for the channels \<open>m\<close>, ..., \<open>n - 1\<close>, \<open>volts_at\<close> the voltage of sample \<open>i\<close>
  (line 248), \<open>field_at\<close> the text written to the file for sample \<open>i\<close> (lines
  253-257), \<open>channel_sum\<close> the sum of the voltages of the samples \<open>i\<close>, ...,
  \<open>len - 1\<close> that belong to channel \<open>k\<close> (line 250), and \<open>report_text\<close> the
  report lines of the channels \<open>m\<close>, ..., \<open>n - 1\<close> (line 261).
\<close>

definition scale_factor :: "UsbDask \<Rightarrow> globals \<Rightarrow> nat \<Rightarrow> real" where
  "scale_factor h g k = fst (ad_range_to_volt h (AdRange (channel g k))) / 2 ^ 15"

definition range_messages :: "UsbDask \<Rightarrow> globals \<Rightarrow> nat \<Rightarrow> nat \<Rightarrow> string" where
  "range_messages h g m n =
     concat (map (\<lambda>k. snd (ad_range_to_volt h (AdRange (channel g k)))) [m..<n])"

definition volts_at :: "(nat \<Rightarrow> real) \<Rightarrow> short list \<Rightarrow> int \<Rightarrow> int \<Rightarrow> int \<Rightarrow> real" where
  "volts_at tvf buffer nc offset i =
     real_of_int (sint (buffer ! nat i)) * tvf (nat ((i + offset) mod nc))"

definition field_at :: "printf \<Rightarrow> (nat \<Rightarrow> real) \<Rightarrow> short list \<Rightarrow> int \<Rightarrow> int \<Rightarrow> int \<Rightarrow> string" where
  "field_at pf tvf buffer nc offset i =
     fmt_e pf (Finite (volts_at tvf buffer nc offset i)) @
     (if (i + offset) mod nc + 1 = nc then [CHR 0x0A] else [CHR '','', CHR 0x09])"

definition channel_sum :: "(nat \<Rightarrow> real) \<Rightarrow> short list \<Rightarrow> int \<Rightarrow> int \<Rightarrow> int \<Rightarrow> int \<Rightarrow> nat \<Rightarrow> real" where
  "channel_sum tvf buffer nc offset i len k =
     sum_list (map (volts_at tvf buffer nc offset)
       (filter (\<lambda>j. (j + offset) mod nc = int k) [i..len - 1]))"

definition report_text :: "printf \<Rightarrow> globals \<Rightarrow> (nat \<Rightarrow> real) \<Rightarrow> real \<Rightarrow> nat \<Rightarrow> nat \<Rightarrow> string" where
  "report_text pf g tot spc m n =
     concat (map (\<lambda>k. report_line pf (id_ch (channel g k)) (double_div (tot k) spc)) [m..<n])"

section \<open>Sample inputs\<close>

text \<open>
  Two channels, id 0 on the 1 V range and id 1 on the 10 V range, an open and
  empty data file, and two small buffers. \<open>sample_printf\<close> stands for the C
  library on the few numbers that the sample runs print, in the notation of
  glibc; it prints every other number as a question mark.
\<close>

definition sample_printf :: printf where
  "sample_printf =
     \<lparr>fmt_e = (\<lambda>d. if d = Finite 0 then ''0.000000e+00''
                   else if d = Finite (1 / 4) then ''2.500000e-01''
                   else if d = Finite (1 / 2) then ''5.000000e-01''
                   else if d = Finite (5 / 2) then ''2.500000e+00''
                   else if d = Finite 5 then ''5.000000e+00''
                   else ''?''),
      fmt_d = (\<lambda>n. if n = 0 then ''0'' else if n = 1 then ''1'' else ''?''),
      fmt_f = (\<lambda>d. ''?''),
      fmt_6_3lf = (\<lambda>d. ''?'')\<rparr>"

definition sample_globals :: globals where
  "sample_globals =
     \<lparr>file_name = ''data.csv'', file_h = Some [], card = 0, sample_rate = 200,
      duration = - 1, no_channels = 2,
      channel = (\<lambda>k. \<lparr>id_ch = 0, AdRange = 0\<rparr>)
        (0 := \<lparr>id_ch = 0, AdRange = 3\<rparr>, 1 := \<lparr>id_ch = 1, AdRange = 1\<rparr>),
      stdout = [], stderr = [], calls = []\<rparr>"

text \<open>
  A run in which the file cannot be opened: one card of the right type, every
  driver call succeeds, no half buffer becomes ready, a key is pressed at the
  first poll and no sample remains. \<open>sample_poll_error\<close> is a poll at which the
  driver reports an error.
\<close>

definition sample_poll :: poll where
  "sample_poll =
     \<lparr>half_err = 0, HalfReady = False, xfer_err = 0, xfer_data = [], kbhit = True, tick = 10\<rparr>"


definition sample_driver :: driver where
  "sample_driver =
     \<lparr>scan_err = 0, modules = [(5, 0)], register_card = 0, config_err = 0,
      dbl_buffer_mode_err = 0, counter_interval_err = 0, cont_read_err = 0, last_error = 0,
      tick_start = 0, fopen_error = Some ''Permission denied'', polls = [sample_poll],
      clear_err = 0, clear_count = 0, tick_end = 20, last_xfer_err = 0, last_xfer_data = []\<rparr>"

definition sample_argv :: "string list" where
  "sample_argv = [''prog'', ''-c'', ''0:1'']"

definition sample_buffer :: "short list" where
  "sample_buffer = [16384, 16384, 0, 0]"

definition sample_buffer_max :: "short list" where
  "sample_buffer_max = [0, 32767]"

section \<open>Properties of the voltage converter\<close>

text \<open>
  C4. The voltage converter maps the four supported range codes to 0.2 V, 1.0 V,
  2.0 V and 10.0 V respectively, writing nothing; for every other code it writes
  a message to the error stream and returns 0.0 V. It always returns: the
  function is total and has no exit.
\<close>

theorem ad_range_to_volt_table:
  assumes "ranges_distinct h"
  shows "ad_range_to_volt h (AD_B_0_2_V h) = (0.2, [])
    \<and> ad_range_to_volt h (AD_B_1_V h) = (1, [])
    \<and> ad_range_to_volt h (AD_B_2_V h) = (2, [])
    \<and> ad_range_to_volt h (AD_B_10_V h) = (10, [])
    \<and> (\<forall>rng. rng \<notin> {AD_B_0_2_V h, AD_B_1_V h, AD_B_2_V h, AD_B_10_V h} \<longrightarrow>
         ad_range_to_volt h rng = (0, ''ad_range_to_volt: Unknown AD range.''))"
  using assms by (auto simp: ad_range_to_volt_def ranges_distinct_def)

theorem ad_range_to_volt_table_witness:
  "ranges_distinct sample_header
   \<and> ad_range_to_volt sample_header 4 = (0.2, [])
   \<and> ad_range_to_volt sample_header 3 = (1, [])
   \<and> ad_range_to_volt sample_header 2 = (2, [])
   \<and> ad_range_to_volt sample_header 1 = (10, [])
   \<and> (7::U16) \<notin> {4, 3, 2, 1}
   \<and> ad_range_to_volt sample_header 7 = (0, ''ad_range_to_volt: Unknown AD range.'')"
proof -
  have d: "ranges_distinct sample_header"
    by (simp add: ranges_distinct_def sample_header_def)
  from ad_range_to_volt_table [OF d] have
    "ad_range_to_volt sample_header 4 = (0.2, [])"
    "ad_range_to_volt sample_header 3 = (1, [])"
    "ad_range_to_volt sample_header 2 = (2, [])"
    "ad_range_to_volt sample_header 1 = (10, [])"
    "(7::U16) \<notin> {4, 3, 2, 1} \<longrightarrow>
       ad_range_to_volt sample_header 7 = (0, ''ad_range_to_volt: Unknown AD range.'')"
    by (simp_all add: sample_header_def)
  with d show ?thesis by simp
qed

section \<open>The loops of the sample processor\<close>

lemma smod_nonneg: "0 \<le> a \<Longrightarrow> 0 < b \<Longrightarrow> (a::int) smod b = a mod b"
  by (simp add: smod_int_alt_def sgn_if)

lemma sdiv_nonneg: "0 \<le> a \<Longrightarrow> 0 < b \<Longrightarrow> (a::int) sdiv b = a div b"
  by (simp add: signed_divide_int_def sgn_if)

lemma int_add_ok: "INT_MIN \<le> a + b \<Longrightarrow> a + b \<le> INT_MAX \<Longrightarrow> int_add a b = Inr (a + b)"
  by (simp add: int_add_def)

lemma int_mod_ok: "0 \<le> a \<Longrightarrow> 0 < b \<Longrightarrow> int_mod a b = Inr (a mod b)"
  by (simp add: int_mod_def smod_nonneg INT_MIN_def)

lemma int_div_ok: "0 \<le> a \<Longrightarrow> 0 < b \<Longrightarrow> int_div a b = Inr (a div b)"
  by (simp add: int_div_def sdiv_nonneg INT_MIN_def)

lemma channel_index_ok:
  "0 \<le> i \<Longrightarrow> 0 \<le> offset \<Longrightarrow> i + offset \<le> INT_MAX \<Longrightarrow> 0 < nc \<Longrightarrow>
   channel_index nc offset i = Inr ((i + offset) mod nc)"
  by (simp add: channel_index_def int_add_ok int_mod_ok INT_MIN_def)

lemma separator_ok:
  "0 \<le> c \<Longrightarrow> c < nc \<Longrightarrow> nc \<le> MAX_CHANNELS \<Longrightarrow>
   separator nc c = Inr (if c + 1 = nc then [CHR 0x0A] else [CHR '','', CHR 0x09])"
  by (auto simp add: separator_def int_add_ok int_mod_ok INT_MIN_def INT_MAX_def MAX_CHANNELS_def)

lemma load_ok:
  "0 \<le> c \<Longrightarrow> c < MAX_CHANNELS \<Longrightarrow> a (nat c) = Some v \<Longrightarrow> load a c = Inr v"
  by (simp add: load_def)

lemma init_loop_eq:
  "0 \<le> i \<Longrightarrow> no_channels g \<le> MAX_CHANNELS \<Longrightarrow>
   init_loop h g i (s, tv, err) =
     Inr ((\<lambda>k. if i \<le> int k \<and> int k < no_channels g then Some 0 else s k),
          (\<lambda>k. if i \<le> int k \<and> int k < no_channels g then Some (scale_factor h g k) else tv k),
          err @ range_messages h g (nat i) (nat (no_channels g)))"
proof (induction h g i "(s, tv, err)" arbitrary: s tv err rule: init_loop.induct)
  case (1 h g i s tv err)
  show ?case
  proof (cases "i < no_channels g")
    case False
    then show ?thesis
      by (auto simp add: init_loop.simps [of h g i] range_messages_def fun_eq_iff)
  next
    case True
    obtain v msg where vm: "ad_range_to_volt h (AdRange (channel g (nat i))) = (v, msg)"
      by (cases "ad_range_to_volt h (AdRange (channel g (nat i)))")
    have inb: "\<not> (i < 0 \<or> MAX_CHANNELS \<le> i)"
      using True "1.prems" by simp
    have step: "init_loop h g i (s, tv, err) =
        init_loop h g (i + 1) (s(nat i \<mapsto> 0), tv(nat i \<mapsto> v / 2 ^ 15), err @ msg)"
      using True inb vm by (simp add: init_loop.simps [of h g i])
    have ih: "init_loop h g (i + 1) (s(nat i \<mapsto> 0), tv(nat i \<mapsto> v / 2 ^ 15), err @ msg) =
      Inr ((\<lambda>k. if i + 1 \<le> int k \<and> int k < no_channels g then Some 0 else (s(nat i \<mapsto> 0)) k),
          (\<lambda>k. if i + 1 \<le> int k \<and> int k < no_channels g then Some (scale_factor h g k)
                else (tv(nat i \<mapsto> v / 2 ^ 15)) k),
          (err @ msg) @ range_messages h g (nat (i + 1)) (nat (no_channels g)))"
      using "1.hyps" [OF True inb vm [symmetric]] "1.prems" by simp
    have up: "range_messages h g (nat i) (nat (no_channels g)) =
        msg @ range_messages h g (nat (i + 1)) (nat (no_channels g))"
    proof -
      have "[nat i..<nat (no_channels g)] = nat i # [nat (i + 1)..<nat (no_channels g)]"
        using True "1.prems" by (simp add: upt_conv_Cons nat_add_distrib)
      then show ?thesis using vm by (simp add: range_messages_def)
    qed
    have f1: "(\<lambda>k. if i + 1 \<le> int k \<and> int k < no_channels g then Some 0 else (s(nat i \<mapsto> 0)) k)
        = (\<lambda>k. if i \<le> int k \<and> int k < no_channels g then Some 0 else s k)"
      using True "1.prems" by (auto simp: fun_eq_iff)
    have f2: "(\<lambda>k. if i + 1 \<le> int k \<and> int k < no_channels g then Some (scale_factor h g k)
                else (tv(nat i \<mapsto> v / 2 ^ 15)) k)
        = (\<lambda>k. if i \<le> int k \<and> int k < no_channels g then Some (scale_factor h g k) else tv k)"
      using True "1.prems" vm by (auto simp: fun_eq_iff scale_factor_def)
    show ?thesis
      unfolding step ih f1 f2 up by simp
  qed
qed


lemma sample_step_eq:
  assumes nc: "0 < nc" "nc \<le> MAX_CHANNELS"
    and i: "0 \<le> i" "i < int (length buffer)"
    and off: "0 \<le> offset" "i + offset \<le> INT_MAX"
    and tv: "\<forall>k. int k < nc \<longrightarrow> tv k = Some (tvf k)"
    and sm: "\<forall>k. int k < nc \<longrightarrow> sm k \<noteq> None"
  shows "sample_step pf nc tv buffer offset i (sm, Some wr) =
     Inr (sm(nat ((i + offset) mod nc) \<mapsto>
            the (sm (nat ((i + offset) mod nc))) + volts_at tvf buffer nc offset i),
          Some (wr @ field_at pf tvf buffer nc offset i))"
proof -
  let ?c = "(i + offset) mod nc"
  have c0: "0 \<le> ?c" "?c < nc"
    using nc by simp_all
  have c: "0 \<le> ?c" "?c < nc" "?c < MAX_CHANNELS" "int (nat ?c) < nc"
    using c0 nc by linarith+
  have ci: "channel_index nc offset i = Inr ?c"
    using nc i off by (simp add: channel_index_ok)
  have ltv: "load tv ?c = Inr (tvf (nat ?c))"
    by (rule load_ok [OF c(1) c(3)]) (rule tv [rule_format, OF c(4)])
  have "sm (nat ?c) \<noteq> None"
    by (rule sm [rule_format, OF c(4)])
  then obtain v where v: "sm (nat ?c) = Some v"
    by blast
  have lsm: "load sm ?c = Inr v"
    by (rule load_ok [OF c(1) c(3)]) (rule v)
  have sv: "sample_volts tv buffer i ?c = Inr (volts_at tvf buffer nc offset i)"
    using i ltv by (simp add: sample_volts_def volts_at_def)
  have sep: "separator nc ?c =
      Inr (if ?c + 1 = nc then [CHR 0x0A] else [CHR '','', CHR 0x09])"
    by (rule separator_ok [OF c(1) c(2) nc(2)])
  show ?thesis
    by (simp add: sample_step_def ci sv lsm sep v field_at_def)
qed

lemma sample_loop_eq:
  assumes nc: "0 < nc" "nc \<le> MAX_CHANNELS"
    and len: "len \<le> int (length buffer)"
    and off: "0 \<le> offset" "len + offset \<le> INT_MAX"
    and tv: "\<forall>k. int k < nc \<longrightarrow> tv k = Some (tvf k)"
  shows "0 \<le> i \<Longrightarrow> \<forall>k. int k < nc \<longrightarrow> sm k \<noteq> None \<Longrightarrow>
    sample_loop pf nc tv buffer len offset i (sm, Some wr) =
     Inr ((\<lambda>k. if int k < nc
                then Some (the (sm k) + channel_sum tvf buffer nc offset i len k)
                else sm k),
          Some (wr @ concat (map (field_at pf tvf buffer nc offset) [i..len - 1])))"
proof (induction "nat (len - i)" arbitrary: i sm wr)
  case 0
  then have "\<not> i < len" by simp
  then show ?case
    using "0.prems" by (auto simp: sample_loop.simps [where len = len and i = i] channel_sum_def fun_eq_iff)
next
  case (Suc n)
  then have lt: "i < len" by simp
  let ?c = "(i + offset) mod nc"
  let ?sm' = "sm(nat ?c \<mapsto> the (sm (nat ?c)) + volts_at tvf buffer nc offset i)"
  let ?wr' = "wr @ field_at pf tvf buffer nc offset i"
  have c: "0 \<le> ?c" "?c < nc"
    using nc by simp_all
  have step: "sample_step pf nc tv buffer offset i (sm, Some wr) = Inr (?sm', Some ?wr')"
    using sample_step_eq [OF nc Suc.prems(1) _ off(1) _ tv Suc.prems(2)] lt len off
    by simp
  have n: "n = nat (len - (i + 1))" using Suc.hyps(2) by simp
  have sm': "\<forall>k. int k < nc \<longrightarrow> ?sm' k \<noteq> None"
    using Suc.prems(2) by simp
  have ih: "sample_loop pf nc tv buffer len offset (i + 1) (?sm', Some ?wr') =
     Inr ((\<lambda>k. if int k < nc
                then Some (the (?sm' k) + channel_sum tvf buffer nc offset (i + 1) len k)
                else ?sm' k),
          Some (?wr' @ concat (map (field_at pf tvf buffer nc offset) [i + 1..len - 1])))"
  proof -
    have i1: "0 \<le> i + 1" using Suc.prems(1) by simp
    show ?thesis by (rule Suc.hyps(1) [OF n i1 sm'])
  qed
  have up: "[i..len - 1] = i # [i + 1..len - 1]"
    using lt by (simp add: upto_rec1)
  have tot: "(\<lambda>k. if int k < nc
                then Some (the (?sm' k) + channel_sum tvf buffer nc offset (i + 1) len k)
                else ?sm' k)
      = (\<lambda>k. if int k < nc
                then Some (the (sm k) + channel_sum tvf buffer nc offset i len k)
                else sm k)"
    using c by (auto simp: fun_eq_iff channel_sum_def up)
  show ?case
    using lt by (simp add: sample_loop.simps [where len = len and i = i] step ih tot up)
qed


lemma report_loop_eq:
  assumes nc: "no_channels g \<le> MAX_CHANNELS"
    and sm: "\<forall>k. int k < no_channels g \<longrightarrow> sm k = Some (tot k)"
  shows "0 \<le> i \<Longrightarrow>
    report_loop pf g sm spc i out =
      Inr (out @ report_text pf g tot spc (nat i) (nat (no_channels g)))"
proof (induction "nat (no_channels g - i)" arbitrary: i out)
  case 0
  then have "\<not> i < no_channels g" by simp
  then show ?case
    by (simp add: report_loop.simps [where g = g and i = i] report_text_def)
next
  case (Suc n)
  then have lt: "i < no_channels g" by simp
  have inb: "0 \<le> i" "i < MAX_CHANNELS" "int (nat i) < no_channels g"
    using lt nc Suc.prems by simp_all
  have ld: "load sm i = Inr (tot (nat i))"
    by (rule load_ok [OF inb(1) inb(2)]) (rule sm [rule_format, OF inb(3)])
  have n: "n = nat (no_channels g - (i + 1))" using Suc.hyps(2) by simp
  have i1: "0 \<le> i + 1" using Suc.prems by simp
  have up: "[nat i..<nat (no_channels g)] = nat i # [nat (i + 1)..<nat (no_channels g)]"
    using lt Suc.prems by (simp add: upt_conv_Cons nat_add_distrib)
  show ?case
    using lt inb(1,2)
    by (simp add: report_loop.simps [where g = g and i = i] ld Suc.hyps(1) [OF n i1]
        report_text_def up)
qed

lemma process_samples_eq:
  assumes nc: "0 < no_channels g" "no_channels g \<le> MAX_CHANNELS"
    and len: "0 \<le> len" "len \<le> int (length buffer)"
    and off: "0 \<le> offset" "len + offset \<le> INT_MAX"
    and f: "file_h g = Some wr"
  shows "process_samples h pf g buffer len offset =
    Inr ((len + offset) mod no_channels g,
         g\<lparr>file_h := Some (wr @ concat (map (field_at pf (scale_factor h g) buffer (no_channels g) offset)
                                   [0..len - 1])),
           stdout := stdout g @ report_text pf g
                       (channel_sum (scale_factor h g) buffer (no_channels g) offset 0 len)
                       (real_of_int (len div no_channels g)) 0 (nat (no_channels g)),
           stderr := stderr g @ range_messages h g 0 (nat (no_channels g))\<rparr>)"
proof -
  let ?nc = "no_channels g"
  let ?tv = "\<lambda>k. if int k < ?nc then Some (scale_factor h g k) else None"
  let ?s0 = "\<lambda>k. if int k < ?nc then Some (0::real) else None"
  have q: "int_div len ?nc = Inr (len div ?nc)"
    using nc len by (simp add: int_div_ok)
  have il: "init_loop h g 0 (Map.empty, Map.empty, stderr g) =
      Inr (?s0, ?tv, stderr g @ range_messages h g 0 (nat ?nc))"
    using init_loop_eq [of 0 g h Map.empty Map.empty "stderr g"] nc by simp
  have tv: "\<forall>k. int k < ?nc \<longrightarrow> ?tv k = Some (scale_factor h g k)" by simp
  have s0: "\<forall>k. int k < ?nc \<longrightarrow> ?s0 k \<noteq> None" by simp
  let ?sm = "\<lambda>k. if int k < ?nc
      then Some (the (?s0 k) + channel_sum (scale_factor h g) buffer ?nc offset 0 len k)
      else ?s0 k"
  have sl: "sample_loop pf ?nc ?tv buffer len offset 0 (?s0, Some wr) =
      Inr (?sm, Some (wr @ concat (map (field_at pf (scale_factor h g) buffer ?nc offset) [0..len - 1])))"
    by (rule sample_loop_eq [OF nc len(2) off tv order_refl s0])
  have sm: "\<forall>k. int k < ?nc \<longrightarrow>
      ?sm k = Some (channel_sum (scale_factor h g) buffer ?nc offset 0 len k)"
    by simp
  have rl: "report_loop pf g ?sm (real_of_int (len div ?nc)) 0 (stdout g) =
      Inr (stdout g @ report_text pf g
             (channel_sum (scale_factor h g) buffer ?nc offset 0 len)
             (real_of_int (len div ?nc)) (nat 0) (nat ?nc))"
    by (rule report_loop_eq [OF nc(2) sm order_refl])
  have ia: "int_add len offset = Inr (len + offset)"
    using len off by (simp add: int_add_ok INT_MIN_def)
  have im: "int_mod (len + offset) ?nc = Inr ((len + offset) mod ?nc)"
    using len off nc by (simp add: int_mod_ok)
  show ?thesis
    unfolding process_samples_def q il f
    by (simp add: sl rl ia im)
qed


lemma int_add_Inr: "int_add a b = Inr x \<Longrightarrow> x = a + b"
  by (simp add: int_add_def split: if_splits)

lemma int_mod_Inr: "int_mod a b = Inr r \<Longrightarrow> r = a smod b"
  by (simp add: int_mod_def split: if_splits)

lemma process_samples_Inr_offset:
  assumes "process_samples h pf g buffer len offset = Inr (off, g')"
  shows "int_mod (len + offset) (no_channels g) = Inr off"
  using assms
  by (auto simp: process_samples_def dest!: int_add_Inr split: sum.splits prod.splits)






lemma upto_shift: "[a..a + n - 1] = map (\<lambda>j. j + a) [0..n - 1]"
  by (rule nth_equalityI) (auto simp: nth_upto)

lemma upto_append: "0 \<le> a \<Longrightarrow> 0 \<le> b \<Longrightarrow> [0..a + b - 1] = [0..a - 1] @ [a..a + b - 1]"
proof (cases "b = 0")
  case True
  then show ?thesis by simp
next
  case False
  assume "0 \<le> a" "0 \<le> b"
  with False show ?thesis
    using upto_split1 [of 0 a "a + b - 1"] by simp
qed

lemma fields_append:
  assumes nc: "0 < nc"
  shows "concat (map (field_at pf tvf B1 nc offset) [0..int (length B1) - 1]) @
         concat (map (field_at pf tvf B2 nc ((int (length B1) + offset) mod nc)) [0..int (length B2) - 1])
       = concat (map (field_at pf tvf (B1 @ B2) nc offset) [0..int (length B1) + int (length B2) - 1])"
proof -
  let ?L1 = "int (length B1)" and ?L2 = "int (length B2)"
  have split: "[0..?L1 + ?L2 - 1] = [0..?L1 - 1] @ [?L1..?L1 + ?L2 - 1]"
    by (rule upto_append) simp_all
  have a: "map (field_at pf tvf (B1 @ B2) nc offset) [0..?L1 - 1] =
           map (field_at pf tvf B1 nc offset) [0..?L1 - 1]"
    by (rule map_cong) (auto simp: field_at_def volts_at_def nth_append)
  have b: "map (field_at pf tvf (B1 @ B2) nc offset) [?L1..?L1 + ?L2 - 1] =
           map (field_at pf tvf B2 nc ((?L1 + offset) mod nc)) [0..?L2 - 1]"
  proof -
    have "map (field_at pf tvf (B1 @ B2) nc offset) [?L1..?L1 + ?L2 - 1] =
          map (\<lambda>j. field_at pf tvf (B1 @ B2) nc offset (j + ?L1)) [0..?L2 - 1]"
      by (simp add: upto_shift [of ?L1 ?L2] comp_def)
    also have "\<dots> = map (field_at pf tvf B2 nc ((?L1 + offset) mod nc)) [0..?L2 - 1]"
    proof (rule map_cong [OF refl])
      fix j assume "j \<in> set [0..?L2 - 1]"
      then have j: "0 \<le> j" by simp
      have m: "(j + ?L1 + offset) mod nc = (j + (?L1 + offset) mod nc) mod nc"
        by (simp add: mod_add_right_eq add.assoc)
      have n: "(B1 @ B2) ! nat (j + ?L1) = B2 ! nat j"
        using j by (simp add: nth_append nat_add_distrib)
      show "field_at pf tvf (B1 @ B2) nc offset (j + ?L1) =
            field_at pf tvf B2 nc ((?L1 + offset) mod nc) j"
        by (simp add: field_at_def volts_at_def m n)
    qed
    finally show ?thesis .
  qed
  show ?thesis
    by (simp add: split a b)
qed

section \<open>Properties of the sample processor\<close>

text \<open>
  C1. For a channel count \<open>C > 0\<close>, a length \<open>L \<ge> 0\<close> and an offset \<open>O\<close> with
  \<open>0 \<le> O < C\<close>, the offset that \<^verbatim>\<open>process_samples\<close> returns is \<open>(L + O) mod C\<close>.
  The call does return when the channel count is at most \<open>MAX_CHANNELS\<close>, the
  buffer holds \<open>L\<close> samples, \<open>L + O\<close> is an \<^verbatim>\<open>int\<close> and the file is open.
\<close>

theorem process_samples_offset:
  assumes "0 < no_channels g" and "0 \<le> len" and "0 \<le> offset" and "offset < no_channels g"
  shows "(\<forall>off g'. process_samples h pf g buffer len offset = Inr (off, g') \<longrightarrow>
            off = (len + offset) mod no_channels g)
       \<and> (no_channels g \<le> MAX_CHANNELS \<and> len \<le> int (length buffer)
            \<and> len + offset \<le> INT_MAX \<and> file_h g \<noteq> None \<longrightarrow>
          (\<exists>g'. process_samples h pf g buffer len offset
                   = Inr ((len + offset) mod no_channels g, g')))"
proof (intro conjI allI impI)
  fix off g'
  assume "process_samples h pf g buffer len offset = Inr (off, g')"
  then have "int_mod (len + offset) (no_channels g) = Inr off"
    by (rule process_samples_Inr_offset)
  then show "off = (len + offset) mod no_channels g"
    using assms by (simp add: int_mod_ok)
next
  assume a: "no_channels g \<le> MAX_CHANNELS \<and> len \<le> int (length buffer)
      \<and> len + offset \<le> INT_MAX \<and> file_h g \<noteq> None"
  then obtain wr where wr: "file_h g = Some wr" by auto
  show "\<exists>g'. process_samples h pf g buffer len offset
                   = Inr ((len + offset) mod no_channels g, g')"
    using process_samples_eq [OF assms(1) _ assms(2) _ assms(3) _ wr, of buffer h pf] a
    by simp
qed

theorem process_samples_offset_witness:
  "0 < no_channels sample_globals \<and> (0::int) \<le> 3 \<and> (0::int) \<le> 1
   \<and> 1 < no_channels sample_globals
   \<and> no_channels sample_globals \<le> MAX_CHANNELS \<and> 3 \<le> int (length sample_buffer)
   \<and> 3 + 1 \<le> INT_MAX \<and> file_h sample_globals \<noteq> None
   \<and> (\<exists>g'. process_samples sample_header sample_printf sample_globals sample_buffer 3 1
              = Inr (0, g'))"
  using process_samples_offset [of sample_globals 3 1 sample_header sample_printf sample_buffer]
  by (simp add: sample_globals_def sample_buffer_def MAX_CHANNELS_def INT_MAX_def)

text \<open>
  C5. Every processed sample is appended to the data file as one field: the
  \<^verbatim>\<open>%e\<close> conversion of its voltage, followed by a newline when its channel is
  the last of the cycle (\<open>C - 1\<close>) and by a comma and a tab otherwise. The file
  grows by the fields of the samples \<open>0\<close>, ..., \<open>L - 1\<close> in order.
\<close>

theorem process_samples_rows:
  assumes "0 < no_channels g" and "no_channels g \<le> MAX_CHANNELS"
    and "0 \<le> len" and "len \<le> int (length buffer)"
    and "0 \<le> offset" and "len + offset \<le> INT_MAX"
    and "file_h g = Some wr"
  shows "\<exists>off g'. process_samples h pf g buffer len offset = Inr (off, g') \<and>
     file_h g' = Some (wr @ concat (map
       (\<lambda>i. fmt_e pf (Finite (volts_at (scale_factor h g) buffer (no_channels g) offset i)) @
            (if (i + offset) mod no_channels g = no_channels g - 1
             then [CHR 0x0A] else [CHR '','', CHR 0x09]))
       [0..len - 1]))"
proof -
  have "field_at pf (scale_factor h g) buffer (no_channels g) offset =
     (\<lambda>i. fmt_e pf (Finite (volts_at (scale_factor h g) buffer (no_channels g) offset i)) @
            (if (i + offset) mod no_channels g = no_channels g - 1
             then [CHR 0x0A] else [CHR '','', CHR 0x09]))"
    by (auto simp: field_at_def fun_eq_iff)
  then show ?thesis
    using process_samples_eq [OF assms, of h pf] by simp
qed

theorem process_samples_rows_witness:
  "0 < no_channels sample_globals \<and> no_channels sample_globals \<le> MAX_CHANNELS
   \<and> (0::int) \<le> 4 \<and> 4 \<le> int (length sample_buffer) \<and> (0::int) \<le> 0
   \<and> 4 + 0 \<le> INT_MAX \<and> file_h sample_globals = Some []
   \<and> (\<exists>off g'. process_samples sample_header sample_printf sample_globals sample_buffer 4 0
                  = Inr (off, g')
        \<and> file_h g' = Some (''5.000000e-01,'' @ [CHR 0x09] @ ''5.000000e+00'' @ [CHR 0x0A] @
                            ''0.000000e+00,'' @ [CHR 0x09] @ ''0.000000e+00'' @ [CHR 0x0A]))"
proof -
  have h: "0 < no_channels sample_globals" "no_channels sample_globals \<le> MAX_CHANNELS"
    "(0::int) \<le> 4" "4 \<le> int (length sample_buffer)" "(0::int) \<le> 0"
    "4 + 0 \<le> INT_MAX" "file_h sample_globals = Some []"
    by (simp_all add: sample_globals_def sample_buffer_def MAX_CHANNELS_def INT_MAX_def)
  show ?thesis
    using h process_samples_rows [OF h, of sample_header sample_printf]
    by (simp add: sample_globals_def sample_buffer_def sample_header_def sample_printf_def
        volts_at_def scale_factor_def ad_range_to_volt_def upto_rec1 [of 0 3] upto_rec1 [of 1 3]
        upto_rec1 [of 2 3])
qed







text \<open>
  C2. Processing a buffer \<open>B1\<close> and then a buffer \<open>B2\<close> with the offset that the
  first call returns writes to the file the same text as processing \<open>B1 @ B2\<close>
  in one call, so the separators and newlines are in the same positions; the
  two ways also end with the same offset.
\<close>

theorem process_samples_split:
  assumes "0 < no_channels g" and "no_channels g \<le> MAX_CHANNELS"
    and "0 \<le> offset" and "offset < no_channels g"
    and "int (length B1) + int (length B2) + offset \<le> INT_MAX"
    and "file_h g \<noteq> None"
  shows "\<exists>o1 g1 o2 g2 g12.
      process_samples h pf g B1 (int (length B1)) offset = Inr (o1, g1)
    \<and> process_samples h pf g1 B2 (int (length B2)) o1 = Inr (o2, g2)
    \<and> process_samples h pf g (B1 @ B2) (int (length B1) + int (length B2)) offset
         = Inr (o2, g12)
    \<and> file_h g2 = file_h g12"
proof -
  let ?nc = "no_channels g"
  let ?L1 = "int (length B1)" and ?L2 = "int (length B2)"
  let ?o1 = "(?L1 + offset) mod ?nc"
  obtain wr where wr: "file_h g = Some wr"
    using assms(6) by auto
  let ?w1 = "wr @ concat (map (field_at pf (scale_factor h g) B1 ?nc offset) [0..?L1 - 1])"
  let ?g1 = "g\<lparr>file_h := Some ?w1,
           stdout := stdout g @ report_text pf g
                       (channel_sum (scale_factor h g) B1 ?nc offset 0 ?L1)
                       (real_of_int (?L1 div ?nc)) 0 (nat ?nc),
           stderr := stderr g @ range_messages h g 0 (nat ?nc)\<rparr>"
  have l1: "?L1 + offset \<le> INT_MAX"
    using assms(5) by simp
  have p1: "process_samples h pf g B1 ?L1 offset = Inr (?o1, ?g1)"
    by (rule process_samples_eq [OF assms(1,2) _ _ assms(3) l1 wr]) simp_all
  have o1: "0 \<le> ?o1" "?o1 < ?nc"
    using assms(1) by simp_all
  have "?o1 \<le> ?L1 + offset"
    using assms(3) by (intro zmod_le_nonneg_dividend) simp
  then have l2: "?L2 + ?o1 \<le> INT_MAX"
    using assms(5) by linarith
  have g1: "no_channels ?g1 = ?nc" "file_h ?g1 = Some ?w1"
    "scale_factor h ?g1 = scale_factor h g"
    by (simp_all add: scale_factor_def fun_eq_iff)
  let ?w2 = "?w1 @ concat (map (field_at pf (scale_factor h g) B2 ?nc ?o1) [0..?L2 - 1])"
  obtain g2 where p2: "process_samples h pf ?g1 B2 ?L2 ?o1 = Inr ((?L2 + ?o1) mod ?nc, g2)"
    and f2: "file_h g2 = Some ?w2"
    using process_samples_eq [of ?g1 ?L2 B2 ?o1 ?w1 h pf] assms(1,2) o1 l2 g1
    by simp
  let ?w12 = "wr @ concat (map (field_at pf (scale_factor h g) (B1 @ B2) ?nc offset)
                 [0..?L1 + ?L2 - 1])"
  obtain g12 where p12: "process_samples h pf g (B1 @ B2) (?L1 + ?L2) offset
      = Inr ((?L1 + ?L2 + offset) mod ?nc, g12)"
    and f12: "file_h g12 = Some ?w12"
    using process_samples_eq [of g "?L1 + ?L2" "B1 @ B2" offset wr h pf] assms wr
    by simp
  have off: "(?L2 + ?o1) mod ?nc = (?L1 + ?L2 + offset) mod ?nc"
    by (simp add: mod_add_right_eq add.assoc add.left_commute)
  have "?w2 = ?w12"
    using fields_append [OF assms(1), of pf "scale_factor h g" B1 offset B2] by simp
  then show ?thesis
    using p1 p2 p12 f2 f12 off by auto
qed

theorem process_samples_split_witness:
  "0 < no_channels sample_globals \<and> no_channels sample_globals \<le> MAX_CHANNELS
   \<and> (0::int) \<le> 1 \<and> 1 < no_channels sample_globals
   \<and> int (length sample_buffer_max) + int (length sample_buffer) + 1 \<le> INT_MAX
   \<and> file_h sample_globals \<noteq> None
   \<and> (\<exists>o1 g1 o2 g2 g12.
        process_samples sample_header sample_printf sample_globals sample_buffer_max 2 1
          = Inr (o1, g1)
      \<and> process_samples sample_header sample_printf g1 sample_buffer 4 o1 = Inr (o2, g2)
      \<and> process_samples sample_header sample_printf sample_globals
           (sample_buffer_max @ sample_buffer) 6 1 = Inr (o2, g12)
      \<and> file_h g2 = file_h g12)"
proof -
  have h: "0 < no_channels sample_globals" "no_channels sample_globals \<le> MAX_CHANNELS"
    "(0::int) \<le> 1" "1 < no_channels sample_globals"
    "int (length sample_buffer_max) + int (length sample_buffer) + 1 \<le> INT_MAX"
    "file_h sample_globals \<noteq> None"
    by (simp_all add: sample_globals_def sample_buffer_def sample_buffer_max_def
        MAX_CHANNELS_def INT_MAX_def)
  have l: "int (length sample_buffer_max) = 2" "int (length sample_buffer) = 4"
    by (simp_all add: sample_buffer_def sample_buffer_max_def)
  show ?thesis
    using h process_samples_split [OF h, of sample_header sample_printf]
    by (simp add: l)
qed

section \<open>The exit paths of the acquisition loop\<close>















text \<open>
  C9. When \<^verbatim>\<open>fopen\<close> fails, \<^verbatim>\<open>main\<close> writes the \<^verbatim>\<open>perror\<close> line to the error
  stream and goes on: the process ends as the acquisition loop, entered with
  the \<^verbatim>\<open>NULL\<close> file handle, and the code after the loop end it.
\<close>

theorem fopen_failure_is_not_fatal:
  assumes "process_arguments h argv initial_globals = Inr g1"
    and "open_USB1901 h pf d g1 = Inr (crd, g2)"
    and "fopen_error d = Some reason"
  shows "\<exists>g4. file_h g4 = None
      \<and> stderr g4 = stderr g2 @ ''fopen error: '' @ '': '' @ reason @ [CHR 0x0A]
      \<and> main h pf d argv =
          (case acquire h pf (tick_start d) (polls d) g4 initial_frame of
             None \<Rightarrow> None
           | Some (Inl out) \<Rightarrow> Some out
           | Some (Inr (g5, fr)) \<Rightarrow> Some (drain h pf d g5 (fr\<lparr>AccessCnt := clear_count d\<rparr>)))"
proof -
  let ?g3 = "open_file d (g2\<lparr>card := crd\<rparr>)"
  let ?g4 = "?g3\<lparr>stdout := stdout ?g3 @ (if duration ?g3 < 1 then press_any_key_to_stop else [])\<rparr>"
  have "file_h ?g4 = None"
    using assms(3) by (simp add: open_file_def Let_def)
  moreover have "stderr ?g4 = stderr g2 @ ''fopen error: '' @ '': '' @ reason @ [CHR 0x0A]"
    using assms(3) by (simp add: open_file_def Let_def)
  moreover have "main h pf d argv =
          (case acquire h pf (tick_start d) (polls d) ?g4 initial_frame of
             None \<Rightarrow> None
           | Some (Inl out) \<Rightarrow> Some out
           | Some (Inr (g5, fr)) \<Rightarrow> Some (drain h pf d g5 (fr\<lparr>AccessCnt := clear_count d\<rparr>)))"
    using assms(1,2) by (simp add: main_def Let_def)
  ultimately show ?thesis by blast
qed

theorem fopen_failure_is_not_fatal_witness:
  "(\<exists>g1 crd g2.
      process_arguments sample_header sample_argv initial_globals = Inr g1
    \<and> open_USB1901 sample_header sample_printf sample_driver g1 = Inr (crd, g2)
    \<and> fopen_error sample_driver = Some ''Permission denied''
    \<and> (\<exists>g4. file_h g4 = None
          \<and> stderr g4 = stderr g2 @ ''fopen error: '' @ '': '' @ ''Permission denied'' @ [CHR 0x0A]
          \<and> main sample_header sample_printf sample_driver sample_argv =
              (case acquire sample_header sample_printf (tick_start sample_driver)
                      (polls sample_driver) g4 initial_frame of
                 None \<Rightarrow> None
               | Some (Inl out) \<Rightarrow> Some out
               | Some (Inr (g5, fr)) \<Rightarrow>
                   Some (drain sample_header sample_printf sample_driver g5
                           (fr\<lparr>AccessCnt := clear_count sample_driver\<rparr>)))))
   \<and> (case main sample_header sample_printf sample_driver sample_argv of
         Some (Exited c gf) \<Rightarrow>
           c = 0 \<and> file_h gf = None
           \<and> stderr gf = ''fopen error: : Permission denied'' @ [CHR 0x0A]
       | _ \<Rightarrow> False)"
proof -
  have run: "(case main sample_header sample_printf sample_driver sample_argv of
         Some (Exited c gf) \<Rightarrow>
           c = 0 \<and> file_h gf = None
           \<and> stderr gf = ''fopen error: : Permission denied'' @ [CHR 0x0A]
       | _ \<Rightarrow> False)"
    by code_simp
  have pa: "\<exists>g1. process_arguments sample_header sample_argv initial_globals = Inr g1
      \<and> sample_rate g1 = 200 \<and> no_channels g1 = 1 \<and> stderr g1 = []"
    by (simp add: process_arguments_def sample_argv_def arg_loop.simps sscanf_d_d_def scan_d_def
        is_space_def is_digit_def digit_value_def MAX_CHANNELS_def INT_MIN_def INT_MAX_def
        initial_globals_def)
  then obtain g1 where g1: "process_arguments sample_header sample_argv initial_globals = Inr g1"
    and v: "sample_rate g1 = 200" "no_channels g1 = 1"
    by blast
  have "\<exists>crd g2. open_USB1901 sample_header sample_printf sample_driver g1 = Inr (crd, g2)"
    using v
    by (simp add: open_USB1901_def int_div_def U1902_TIMEBASE_def MAX_CHANNELS_def Let_def
        sample_driver_def pick_card_def sample_header_def INVALID_CARD_ID_def)
  then obtain crd g2 where g2: "open_USB1901 sample_header sample_printf sample_driver g1
      = Inr (crd, g2)"
    by blast
  have fe: "fopen_error sample_driver = Some ''Permission denied''"
    by (simp add: sample_driver_def)
  from fopen_failure_is_not_fatal [OF g1 g2 fe] g1 g2 fe run
  show ?thesis by blast
qed

section \<open>Properties of the argument parser\<close>











end
